theory Spec2Isabelle
  imports Complex_Main "HOL-Library.Sublist"
begin

section \<open>JavaScript values used by the SDK\<close>

text \<open>
  Strings are \<^typ>\<open>string\<close>; an optional value (\<^verbatim>\<open>x?: T\<close>, \<^verbatim>\<open>T | undefined\<close>) is an
  \<^typ>\<open>'a option\<close> with \<^term>\<open>None\<close> for \<^verbatim>\<open>undefined\<close>. Configuration numbers are
  documented as millisecond durations and counts and are integers; numbers read from a
  JSON body and clock readings are reals (exact arithmetic, no floating-point rounding).
\<close>

text \<open>Truthiness of an optional string, as tested by \<^verbatim>\<open>!x\<close>, \<^verbatim>\<open>!!x\<close> and \<^verbatim>\<open>while (x)\<close>.\<close>

definition truthy :: "string option \<Rightarrow> bool" where
  "truthy x = (case x of None \<Rightarrow> False | Some s \<Rightarrow> s \<noteq> [])"

text \<open>The nullish coalescing operator \<^verbatim>\<open>a ?? b\<close>.\<close>

definition nullish :: "'a option \<Rightarrow> 'a \<Rightarrow> 'a" where
  "nullish a b = (case a of Some v \<Rightarrow> v | None \<Rightarrow> b)"

text \<open>\<^verbatim>\<open>String.prototype.toLowerCase\<close> on the ASCII letters.\<close>

definition lower_char :: "char \<Rightarrow> char" where
  "lower_char c =
     (case map_of (zip ''ABCDEFGHIJKLMNOPQRSTUVWXYZ'' ''abcdefghijklmnopqrstuvwxyz'') c of
        Some d \<Rightarrow> d
      | None \<Rightarrow> c)"

definition toLowerCase :: "string \<Rightarrow> string" where
  "toLowerCase s = map lower_char s"

text \<open>\<^verbatim>\<open>s.includes(t)\<close>: \<open>t\<close> occurs in \<open>s\<close> at some position.\<close>

fun string_includes :: "string \<Rightarrow> string \<Rightarrow> bool" where
  "string_includes [] t = (t = [])"
| "string_includes (c # s) t = (prefix t (c # s) \<or> string_includes s t)"

text \<open>A plain \<^verbatim>\<open>Error\<close> with its message.\<close>

datatype js_error = Error string


section \<open>Configuration: internal/config.ts and the ScrapeBadger constructor\<close>

text \<open>
  \<^verbatim>\<open>Partial<ScrapeBadgerConfig>\<close>, the constructor's argument. \<^verbatim>\<open>resolveConfig\<close> tests
  \<^verbatim>\<open>!config.apiKey\<close> at run time, so the key is optional here as well.
\<close>

record ScrapeBadgerConfig =
  cfg_apiKey :: "string option"
  cfg_baseUrl :: "string option"
  cfg_timeout :: "int option"
  cfg_maxRetries :: "int option"
  cfg_retryDelay :: "int option"

record ResolvedConfig =
  apiKey :: string
  baseUrl :: string
  timeout :: int
  maxRetries :: int
  retryDelay :: int

definition DEFAULT_BASE_URL :: string where
  "DEFAULT_BASE_URL = ''https://api.scrapebadger.com''"

definition DEFAULT_TIMEOUT :: int where
  "DEFAULT_TIMEOUT = 30000"

definition DEFAULT_MAX_RETRIES :: int where
  "DEFAULT_MAX_RETRIES = 3"

definition DEFAULT_RETRY_DELAY :: int where
  "DEFAULT_RETRY_DELAY = 1000"

definition resolveConfig :: "ScrapeBadgerConfig \<Rightarrow> js_error + ResolvedConfig" where
  "resolveConfig config =
     (case cfg_apiKey config of
        None \<Rightarrow> Inl (Error ''API key is required'')
      | Some k \<Rightarrow>
          if k = [] then Inl (Error ''API key is required'')
          else Inr \<lparr> apiKey = k,
                     baseUrl = nullish (cfg_baseUrl config) DEFAULT_BASE_URL,
                     timeout = nullish (cfg_timeout config) DEFAULT_TIMEOUT,
                     maxRetries = nullish (cfg_maxRetries config) DEFAULT_MAX_RETRIES,
                     retryDelay = nullish (cfg_retryDelay config) DEFAULT_RETRY_DELAY \<rparr>)"

text \<open>
  The process environment: \<^term>\<open>None\<close> when there is no \<^verbatim>\<open>process\<close> object or no
  \<^verbatim>\<open>process.env\<close>, otherwise the variables that are set.
\<close>

type_synonym process_env = "(string \<Rightarrow> string option) option"

definition getApiKeyFromEnv :: "process_env \<Rightarrow> string option" where
  "getApiKeyFromEnv penv =
     (case penv of None \<Rightarrow> None | Some env \<Rightarrow> env ''SCRAPEBADGER_API_KEY'')"

text \<open>
  \<^verbatim>\<open>new ScrapeBadger(config)\<close>. The client it builds is determined by the resolved
  configuration handed to \<^verbatim>\<open>BaseClient\<close>; the constructor has no access to the network.
\<close>

definition ScrapeBadger_constructor ::
  "process_env \<Rightarrow> ScrapeBadgerConfig \<Rightarrow> js_error + ResolvedConfig" where
  "ScrapeBadger_constructor penv config =
     (let key = (case cfg_apiKey config of Some k \<Rightarrow> Some k | None \<Rightarrow> getApiKeyFromEnv penv)
      in if \<not> truthy key
         then Inl (Error (''API key is required. Pass it in the config or set '' @
                          ''SCRAPEBADGER_API_KEY environment variable.''))
         else resolveConfig (config\<lparr>cfg_apiKey := key\<rparr>))"


section \<open>Pagination: internal/pagination.ts\<close>

record 'a PaginatedResponse =
  data :: "'a list"
  nextCursor :: "string option"
  hasMore :: bool

definition createPaginatedResponse :: "'a list \<Rightarrow> string option \<Rightarrow> 'a PaginatedResponse" where
  "createPaginatedResponse d cursor = \<lparr> data = d, nextCursor = cursor, hasMore = truthy cursor \<rparr>"

text \<open>
  A page fetcher is called with the cursor and may depend on hidden state \<open>'s\<close> (a server, a
  queue of mocked answers); it resolves to a page or rejects with an error \<open>'e\<close>.
\<close>

type_synonym ('a, 'e, 's) fetchPage =
  "string option \<Rightarrow> 's \<Rightarrow> ('e + 'a PaginatedResponse) \<times> 's"

text \<open>
  What a consumer that drains the generator observes: the items yielded in order, the
  cursor argument of every \<^verbatim>\<open>fetchPage\<close> call in order, and the error thrown, if any.
\<close>

record ('a, 'e) Iteration =
  yielded :: "'a list"
  calls :: "string option list"
  thrown :: "'e option"

text \<open>
  The \<^verbatim>\<open>for (const item of response.data)\<close> loop: the items it yields, the new value of
  \<^verbatim>\<open>totalYielded\<close>, and whether it executed \<^verbatim>\<open>return\<close>.
\<close>

fun yield_page :: "int option \<Rightarrow> 'a list \<Rightarrow> nat \<Rightarrow> 'a list \<times> nat \<times> bool" where
  "yield_page maxItems [] totalYielded = ([], totalYielded, False)"
| "yield_page maxItems (item # rest) totalYielded =
     (let count = totalYielded + 1 in
      if (case maxItems of None \<Rightarrow> False | Some m \<Rightarrow> int count \<ge> m)
      then ([item], count, True)
      else (case yield_page maxItems rest count of
              (items, n, returned) \<Rightarrow> (item # items, n, returned)))"

text \<open>
  The \<^verbatim>\<open>do ... while (cursor)\<close> loop. It need not terminate (an upstream that always
  returns a cursor), so it takes fuel: one unit per \<^verbatim>\<open>fetchPage\<close> call, \<^term>\<open>None\<close> when the
  fuel does not suffice.
\<close>

fun paginate_loop ::
  "nat \<Rightarrow> ('a, 'e, 's) fetchPage \<Rightarrow> int option \<Rightarrow> string option \<Rightarrow> nat \<Rightarrow> 's
     \<Rightarrow> ('a, 'e) Iteration option" where
  "paginate_loop 0 fetchPage maxItems cursor totalYielded s = None"
| "paginate_loop (Suc fuel) fetchPage maxItems cursor totalYielded s =
     (case fetchPage cursor s of
        (Inl e, s') \<Rightarrow> Some \<lparr> yielded = [], calls = [cursor], thrown = Some e \<rparr>
      | (Inr response, s') \<Rightarrow>
          (case yield_page maxItems (data response) totalYielded of
             (items, count, returned) \<Rightarrow>
               if returned then Some \<lparr> yielded = items, calls = [cursor], thrown = None \<rparr>
               else if truthy (nextCursor response)
               then map_option
                      (\<lambda>r. r\<lparr> yielded := items @ yielded r, calls := cursor # calls r \<rparr>)
                      (paginate_loop fuel fetchPage maxItems (nextCursor response) count s')
               else Some \<lparr> yielded = items, calls = [cursor], thrown = None \<rparr>))"

definition paginate ::
  "nat \<Rightarrow> ('a, 'e, 's) fetchPage \<Rightarrow> int option \<Rightarrow> 's \<Rightarrow> ('a, 'e) Iteration option" where
  "paginate fuel fetchPage maxItems s = paginate_loop fuel fetchPage maxItems None 0 s"

text \<open>
  The mock of tests/pagination.test.ts: \<^verbatim>\<open>vi.fn().mockResolvedValueOnce(p1)...\<close> answers the
  queued pages in order, whatever the cursor; once the queue is empty it returns
  \<^verbatim>\<open>undefined\<close>, and reading \<^verbatim>\<open>response.data\<close> throws a TypeError.
\<close>

definition mock_fetchPage :: "('a, string, 'a PaginatedResponse list) fetchPage" where
  "mock_fetchPage cursor queue =
     (case queue of [] \<Rightarrow> (Inl ''TypeError'', []) | p # ps \<Rightarrow> (Inr p, ps))"

text \<open>
  The upstream serves the pages \<open>ps\<close> in order from cursor \<open>c\<close> and state \<open>s\<close>, each call
  made with the cursor of the page before it.
\<close>

fun serves ::
  "('a, 'e, 's) fetchPage \<Rightarrow> string option \<Rightarrow> 's \<Rightarrow> 'a PaginatedResponse list \<Rightarrow> bool" where
  "serves fetchPage c s [] = True"
| "serves fetchPage c s (p # ps) =
     (case fetchPage c s of
        (Inl e, s') \<Rightarrow> False
      | (Inr q, s') \<Rightarrow> q = p \<and> serves fetchPage (nextCursor p) s' ps)"

text \<open>A page fetcher whose empty-string cursors are replaced by absent ones.\<close>

definition without_empty_cursor :: "'a PaginatedResponse \<Rightarrow> 'a PaginatedResponse" where
  "without_empty_cursor p =
     p\<lparr> nextCursor := (if nextCursor p = Some [] then None else nextCursor p) \<rparr>"

definition absent_for_empty :: "('a, 'e, 's) fetchPage \<Rightarrow> ('a, 'e, 's) fetchPage" where
  "absent_for_empty fetchPage cursor s =
     (case fetchPage cursor s of
        (Inl e, s') \<Rightarrow> (Inl e, s')
      | (Inr p, s') \<Rightarrow> (Inr (without_empty_cursor p), s'))"


section \<open>Errors: internal/exceptions.ts\<close>

text \<open>
  The error classes with their fields. \<open>OtherError\<close> stands for any thrown value that is not
  a \<^verbatim>\<open>ScrapeBadgerError\<close> (a network failure of \<^verbatim>\<open>fetch\<close>, a SyntaxError of
  \<^verbatim>\<open>response.json()\<close>, a TypeError), with its name. A \<open>TimeoutError\<close> is given by its
  timeout: the only message the engine gives it is the template literal
  \<^verbatim>\<open>Request timed out after ${timeout}ms\<close>, which the timeout determines and which is not
  rendered here.
\<close>

datatype SBError =
    ScrapeBadgerError string
  | is_AuthenticationError: AuthenticationError string
  | is_RateLimitError: RateLimitError string "real option" "real option" "real option"
  | is_NotFoundError: NotFoundError string "string option" "string option"
  | is_ValidationError: ValidationError string "(string \<times> string list) list option"
  | ServerError string nat
  | TimeoutError int
  | is_InsufficientCreditsError: InsufficientCreditsError string "real option"
  | is_AccountRestrictedError: AccountRestrictedError string "string option"
  | is_OtherError: OtherError string

text \<open>\<^verbatim>\<open>error instanceof ScrapeBadgerError\<close>: every class above extends it.\<close>

definition instanceof_ScrapeBadgerError :: "SBError \<Rightarrow> bool" where
  "instanceof_ScrapeBadgerError error = (\<not> is_OtherError error)"


section \<open>The request engine: internal/client.ts\<close>

text \<open>
  The value of a body property that the code uses as the error message, when it is neither
  absent nor \<^verbatim>\<open>null\<close>: a string, or a value of another type (number, boolean, array, object),
  given by the string that \<^verbatim>\<open>Error\<close> stores for it.
\<close>

datatype js_message = Text string | NonText string

definition message_string :: "js_message \<Rightarrow> string" where
  "message_string m = (case m of Text s \<Rightarrow> s | NonText s \<Rightarrow> s)"

text \<open>
  The properties the code reads from a body that is not \<^verbatim>\<open>null\<close>; \<^term>\<open>None\<close> is an absent
  or \<^verbatim>\<open>null\<close> property. The properties other than \<open>detail\<close> and \<open>message\<close> are only
  stored in the error and have their declared types.
\<close>

record ErrorResponse =
  detail :: "js_message option"
  message :: "js_message option"
  errors :: "(string \<times> string list) list option"
  limit :: "real option"
  remaining :: "real option"
  reset_at :: "real option"
  reason :: "string option"
  credits_balance :: "real option"

text \<open>
  The value of \<^verbatim>\<open>response.json()\<close>: \<^verbatim>\<open>null\<close>, or a value that the code reads under two
  static types, as the caller's \<open>T\<close> and as an \<^verbatim>\<open>ErrorResponse\<close> (the values of its
  properties; a number, a string or an array has none of them).
\<close>

datatype 'a Json = Null | Value 'a ErrorResponse

text \<open>The variable \<^verbatim>\<open>data\<close>: the parsed JSON, or \<^verbatim>\<open>{ detail: text }\<close>.\<close>

datatype 'a Data = FromJson "'a Json" | FromText ErrorResponse

text \<open>
  \<^verbatim>\<open>data as ErrorResponse\<close>, as far as its properties can be read: reading a property of
  \<^verbatim>\<open>null\<close> throws a TypeError.
\<close>

definition errorData :: "'a Data \<Rightarrow> ErrorResponse option" where
  "errorData d =
     (case d of
        FromJson Null \<Rightarrow> None
      | FromJson (Value t e) \<Rightarrow> Some e
      | FromText e \<Rightarrow> Some e)"

text \<open>
  A completed HTTP response: the status, the content-type header, and what the two body
  readers give (\<^verbatim>\<open>json()\<close> rejects with a SyntaxError on a body that is not JSON).
\<close>

record 'a Response =
  status :: nat
  content_type :: "string option"
  json :: "'a Json option"
  body_text :: string

definition ok :: "'a Response \<Rightarrow> bool" where
  "ok response = (200 \<le> status response \<and> status response \<le> 299)"

text \<open>The first statements of \<^verbatim>\<open>handleResponse\<close>: parsing the body.\<close>

definition parse_body :: "'a Response \<Rightarrow> SBError + 'a Data" where
  "parse_body response =
     (if (case content_type response of
            None \<Rightarrow> False
          | Some contentType \<Rightarrow> string_includes contentType ''application/json'')
      then (case json response of
              None \<Rightarrow> Inl (OtherError ''SyntaxError'')
            | Some j \<Rightarrow> Inr (FromJson j))
      else Inr (FromText \<lparr> detail = Some (Text (body_text response)), message = None,
                           errors = None, limit = None, remaining = None, reset_at = None,
                           reason = None, credits_balance = None \<rparr>))"

definition handleResponse :: "'a Response \<Rightarrow> SBError + 'a Data" where
  "handleResponse response =
     (case parse_body response of
        Inl e \<Rightarrow> Inl e
      | Inr d \<Rightarrow>
          if ok response then Inr d
          else
            (case errorData d of
               None \<Rightarrow> Inl (OtherError ''TypeError'')
             | Some e \<Rightarrow>
                 (let m = nullish (detail e) (nullish (message e) (Text ''Request failed''));
                      msg = message_string m;
                      code = status response
                  in if code = 401 then Inl (AuthenticationError msg)
                     else if code = 402
                     then Inl (InsufficientCreditsError msg (credits_balance e))
                     else if code = 403 then
                       (case m of
                          NonText s \<Rightarrow> Inl (OtherError ''TypeError'')
                        | Text s \<Rightarrow>
                            if string_includes (toLowerCase s) ''restricted''
                            then Inl (AccountRestrictedError msg (reason e))
                            else Inl (AuthenticationError msg))
                     else if code = 404 then Inl (NotFoundError msg None None)
                     else if code = 422 then Inl (ValidationError msg (errors e))
                     else if code = 429
                     then Inl (RateLimitError msg (reset_at e) (limit e) (remaining e))
                     else if code \<ge> 500 then Inl (ServerError msg code)
                     else Inl (ScrapeBadgerError msg))))"

text \<open>
  How one \<^verbatim>\<open>fetch\<close> call ends: with a response, or rejected with an error of the given
  name (\<^verbatim>\<open>AbortError\<close> when the timeout timer fired first).
\<close>

datatype 'a fetch_result = Resolved "'a Response" | Rejected string

definition fetchWithTimeout :: "ResolvedConfig \<Rightarrow> 'a fetch_result \<Rightarrow> SBError + 'a Response" where
  "fetchWithTimeout config r =
     (case r of
        Resolved response \<Rightarrow> Inr response
      | Rejected name \<Rightarrow>
          if name = ''AbortError'' then Inl (TimeoutError (timeout config))
          else Inl (OtherError name))"

text \<open>The \<^verbatim>\<open>try\<close> block of one attempt.\<close>

definition attempt_once :: "ResolvedConfig \<Rightarrow> 'a fetch_result \<Rightarrow> SBError + 'a Data" where
  "attempt_once config r =
     (case fetchWithTimeout config r of
        Inl e \<Rightarrow> Inl e
      | Inr response \<Rightarrow> handleResponse response)"

text \<open>The test in the \<^verbatim>\<open>catch\<close> block that rethrows at once.\<close>

definition rethrown :: "SBError \<Rightarrow> bool" where
  "rethrown error =
     (instanceof_ScrapeBadgerError error \<and> \<not> is_RateLimitError error \<and>
      (is_AuthenticationError error \<or> is_NotFoundError error \<or> is_ValidationError error \<or>
       is_InsufficientCreditsError error \<or> is_AccountRestrictedError error))"

text \<open>
  The duration slept before the next attempt; \<open>now\<close> is the value of \<^verbatim>\<open>Date.now()\<close>, in
  milliseconds.
\<close>

definition retry_sleep :: "ResolvedConfig \<Rightarrow> nat \<Rightarrow> SBError \<Rightarrow> real \<Rightarrow> real" where
  "retry_sleep config attempt error now =
     (let delay = real_of_int (retryDelay config) * 2 ^ attempt
      in case error of
           RateLimitError m retryAfter l r \<Rightarrow>
             (case retryAfter of
                None \<Rightarrow> delay
              | Some t \<Rightarrow>
                  if t = 0 then delay
                  else (let retryDelay' = (t - now / 1000) * 1000
                        in if retryDelay' > 0 \<and> retryDelay' < 60000 then retryDelay'
                           else delay))
         | _ \<Rightarrow> delay)"

text \<open>\<^verbatim>\<open>throw lastError ?? new ScrapeBadgerError("Request failed after retries")\<close>.\<close>

definition after_loop :: "SBError option \<Rightarrow> SBError" where
  "after_loop lastError = nullish lastError (ScrapeBadgerError ''Request failed after retries'')"

text \<open>
  What one call of \<^verbatim>\<open>executeWithRetry\<close> does: its result, the number of
  \<^verbatim>\<open>fetchWithTimeout\<close> calls, and the durations passed to \<^verbatim>\<open>sleep\<close>, in order.
\<close>

record 'a Run =
  result :: "SBError + 'a Data"
  attempts :: nat
  sleeps :: "real list"

text \<open>
  The \<^verbatim>\<open>for\<close> loop from a given value of \<^verbatim>\<open>attempt\<close>. \<open>net k\<close> is how the fetch of
  attempt \<open>k\<close> ends and \<open>clock k\<close> what \<^verbatim>\<open>Date.now()\<close> returns while its failure is handled.
\<close>

function retry_loop ::
  "ResolvedConfig \<Rightarrow> (nat \<Rightarrow> 'a fetch_result) \<Rightarrow> (nat \<Rightarrow> real) \<Rightarrow> nat \<Rightarrow> SBError option
     \<Rightarrow> real list \<Rightarrow> 'a Run" where
  "retry_loop config net clock attempt lastError slept =
     (if int attempt \<le> maxRetries config then
        (case attempt_once config (net attempt) of
           Inr v \<Rightarrow> \<lparr> result = Inr v, attempts = attempt + 1, sleeps = slept \<rparr>
         | Inl error \<Rightarrow>
             if rethrown error
             then \<lparr> result = Inl error, attempts = attempt + 1, sleeps = slept \<rparr>
             else if int attempt = maxRetries config
             then \<lparr> result = Inl (after_loop (Some error)), attempts = attempt + 1,
                    sleeps = slept \<rparr>
             else retry_loop config net clock (attempt + 1) (Some error)
                    (slept @ [retry_sleep config attempt error (clock attempt)]))
      else \<lparr> result = Inl (after_loop lastError), attempts = attempt, sleeps = slept \<rparr>)"
  by pat_completeness auto
termination
  by (relation "measure (\<lambda>(config, net, clock, attempt, lastError, slept).
                   nat (maxRetries config + 1 - int attempt))") auto

definition executeWithRetry ::
  "ResolvedConfig \<Rightarrow> (nat \<Rightarrow> 'a fetch_result) \<Rightarrow> (nat \<Rightarrow> real) \<Rightarrow> 'a Run" where
  "executeWithRetry config net clock = retry_loop config net clock 0 None []"

text \<open>
  The \<^verbatim>\<open>requestHeaders\<close> object built by \<^verbatim>\<open>request\<close>: the four defaults, then the
  caller's \<^verbatim>\<open>headers\<close> spread over them.
\<close>

definition requestHeaders ::
  "ResolvedConfig \<Rightarrow> (string \<Rightarrow> string option) \<Rightarrow> (string \<Rightarrow> string option)" where
  "requestHeaders config headers =
     [''Content-Type'' \<mapsto> ''application/json'',
      ''Accept'' \<mapsto> ''application/json'',
      ''X-API-Key'' \<mapsto> apiKey config,
      ''User-Agent'' \<mapsto> ''scrapebadger-node/0.1.0''] ++ headers"


section \<open>Example inputs\<close>

text \<open>
  A resolved configuration with the default settings, an error body with no field set, and
  a response with a JSON content type whose body parses to the given error fields.
\<close>

definition test_config :: ResolvedConfig where
  "test_config = \<lparr> apiKey = ''test-api-key'', baseUrl = ''https://api.scrapebadger.com'',
                    timeout = 30000, maxRetries = 3, retryDelay = 1000 \<rparr>"

definition no_fields :: ErrorResponse where
  "no_fields = \<lparr> detail = None, message = None, errors = None, limit = None,
                  remaining = None, reset_at = None, reason = None, credits_balance = None \<rparr>"

definition json_response :: "nat \<Rightarrow> ErrorResponse \<Rightarrow> unit Response" where
  "json_response code e =
     \<lparr> status = code, content_type = Some ''application/json; charset=utf-8'',
       json = Some (Value () e), body_text = '''' \<rparr>"


section \<open>Properties of the request engine\<close>

declare retry_loop.simps [simp del]

subsection \<open>Response classification\<close>

lemma parse_json_response:
  "parse_body (json_response code e) = Inr (FromJson (Value () e))"
  by (simp add: parse_body_def json_response_def)

lemma status_json_response: "status (json_response code e) = code"
  by (simp add: json_response_def)

lemma attempt_json_response:
  "attempt_once config (Resolved (json_response code e)) = handleResponse (json_response code e)"
  by (simp add: attempt_once_def fetchWithTimeout_def)

text \<open>\<^verbatim>\<open>includes\<close> is containment as a contiguous part.\<close>

lemma string_includes_iff: "string_includes s t \<longleftrightarrow> (\<exists>p q. s = p @ t @ q)"
proof -
  have "string_includes s t = sublist t s"
    by (induction s) (auto simp: sublist_Cons_right)
  then show ?thesis by (simp add: sublist_def)
qed

lemma string_includes_map:
  "string_includes (map f s) t \<longleftrightarrow> (\<exists>p u q. s = p @ u @ q \<and> map f u = t)"
proof
  assume "string_includes (map f s) t"
  then obtain p' q' where "map f s = p' @ t @ q'"
    by (auto simp: string_includes_iff)
  then have "\<exists>p v. s = p @ v \<and> p' = map f p \<and> t @ q' = map f v"
    by (rule map_eq_append_conv[THEN iffD1])
  then obtain p v where v: "s = p @ v" "t @ q' = map f v"
    by blast
  from v(2) have "\<exists>u q. v = u @ q \<and> t = map f u \<and> q' = map f q"
    by (rule append_eq_map_conv[THEN iffD1])
  then obtain u q where "v = u @ q" "t = map f u"
    by blast
  with v(1) show "\<exists>p u q. s = p @ u @ q \<and> map f u = t"
    by blast
next
  assume "\<exists>p u q. s = p @ u @ q \<and> map f u = t"
  then obtain p u q where "s = p @ u @ q" "map f u = t"
    by blast
  then have "map f s = map f p @ t @ map f q"
    by simp
  then show "string_includes (map f s) t"
    unfolding string_includes_iff by blast
qed

text \<open>
  Lower-casing gives "restricted" exactly for the ten-character strings that spell it in
  any mixture of upper and lower case.
\<close>

lemma lower_char_letters:
  "lower_char c = CHR ''r'' \<longleftrightarrow> c = CHR ''r'' \<or> c = CHR ''R''"
  "lower_char c = CHR ''e'' \<longleftrightarrow> c = CHR ''e'' \<or> c = CHR ''E''"
  "lower_char c = CHR ''s'' \<longleftrightarrow> c = CHR ''s'' \<or> c = CHR ''S''"
  "lower_char c = CHR ''t'' \<longleftrightarrow> c = CHR ''t'' \<or> c = CHR ''T''"
  "lower_char c = CHR ''i'' \<longleftrightarrow> c = CHR ''i'' \<or> c = CHR ''I''"
  "lower_char c = CHR ''c'' \<longleftrightarrow> c = CHR ''c'' \<or> c = CHR ''C''"
  "lower_char c = CHR ''d'' \<longleftrightarrow> c = CHR ''d'' \<or> c = CHR ''D''"
  by (simp_all add: lower_char_def)

lemma toLowerCase_restricted:
  "toLowerCase u = ''restricted'' \<longleftrightarrow>
   length u = 10 \<and> (\<forall>i<10. u ! i = ''restricted'' ! i \<or> u ! i = ''RESTRICTED'' ! i)"
proof -
  have "toLowerCase u = ''restricted'' \<longleftrightarrow>
        length u = 10 \<and> (\<forall>i<10. lower_char (u ! i) = ''restricted'' ! i)"
    by (auto simp: toLowerCase_def list_eq_iff_nth_eq)
  also have "\<dots> \<longleftrightarrow>
        length u = 10 \<and> (\<forall>i<10. u ! i = ''restricted'' ! i \<or> u ! i = ''RESTRICTED'' ! i)"
    by (simp add: eval_nat_numeral All_less_Suc lower_char_letters)
  finally show ?thesis .
qed

lemma restricted_any_case:
  "string_includes (toLowerCase s) ''restricted'' \<longleftrightarrow>
   (\<exists>p u q. s = p @ u @ q \<and> length u = 10 \<and>
              (\<forall>i<10. u ! i = ''restricted'' ! i \<or> u ! i = ''RESTRICTED'' ! i))"
  using string_includes_map[of lower_char s "''restricted''"]
  unfolding toLowerCase_restricted[symmetric] toLowerCase_def .

text \<open>
  C4 as stated fails for completed responses: a 401 whose JSON body does not parse throws
  the SyntaxError of \<^verbatim>\<open>response.json()\<close> and is never classified; a 403 whose detail is not
  a string throws a TypeError at \<^verbatim>\<open>message.toLowerCase()\<close>; and a status of 600 or more, which
  is not a 5xx status, gives a ServerError and not the generic base error.
\<close>

theorem handleResponse_classification_counterexample:
  "handleResponse \<lparr> status = 401, content_type = Some ''application/json'',
                    json = None :: unit Json option, body_text = ''<html>'' \<rparr> =
     Inl (OtherError ''SyntaxError'') \<and>
   handleResponse (json_response 403 (no_fields\<lparr> detail := Some (NonText ''[object Object]'') \<rparr>)) =
     Inl (OtherError ''TypeError'') \<and>
   handleResponse (json_response 999 no_fields) = Inl (ServerError ''Request failed'' 999)"
  by (simp add: handleResponse_def parse_body_def ok_def errorData_def nullish_def
      message_string_def json_response_def no_fields_def Let_def)

text \<open>
  C4 (amended): for every completed response. Under a content type containing
  "application/json", a body that is not valid JSON makes handleResponse throw the
  SyntaxError whatever the status, and a body that is \<^verbatim>\<open>null\<close> is returned for a 2xx status
  and gives a TypeError otherwise. In every other case let the parsed body be the JSON
  value, or under another content type the text wrapped as the detail field, and let the
  message be the body's detail field, else its message field, else the literal "Request
  failed" (a field that is absent or null counts as missing). Then a 2xx status returns
  the parsed body; 401 gives Authentication; 402 gives InsufficientCredits with
  credits_balance; 403 gives a TypeError when the message is not a string, AccountRestricted
  with the reason when the message contains "restricted" in any mixture of upper and lower
  case, and Authentication otherwise; 404 gives NotFound; 422 gives Validation with the
  errors map; 429 gives RateLimit with reset_at, limit and remaining; every status from 500
  up gives ServerError with the status code; every other status (below 200, 3xx, the
  remaining 4xx) gives the generic base error.
\<close>

theorem handleResponse_classification:
  "(let code = status response;
        is_json = (\<exists>ct. content_type response = Some ct \<and>
                        (\<exists>p q. ct = p @ ''application/json'' @ q))
    in (is_json \<and> json response = None \<longrightarrow>
          handleResponse response = Inl (OtherError ''SyntaxError'')) \<and>
       (is_json \<and> json response = Some Null \<longrightarrow>
          handleResponse response =
            (if 200 \<le> code \<and> code \<le> 299 then Inr (FromJson Null)
             else Inl (OtherError ''TypeError''))) \<and>
       ((is_json \<and> json response = Some (Value t e) \<and> d = FromJson (Value t e)) \<or>
        (\<not> is_json \<and>
         e = \<lparr> detail = Some (Text (body_text response)), message = None, errors = None,
               limit = None, remaining = None, reset_at = None, reason = None,
               credits_balance = None \<rparr> \<and>
         d = FromText e) \<longrightarrow>
          (let m = (case detail e of
                      Some x \<Rightarrow> x
                    | None \<Rightarrow> (case message e of Some y \<Rightarrow> y | None \<Rightarrow> Text ''Request failed''));
               msg = (case m of Text s \<Rightarrow> s | NonText s \<Rightarrow> s)
           in (200 \<le> code \<and> code \<le> 299 \<longrightarrow> handleResponse response = Inr d) \<and>
              (code = 401 \<longrightarrow> handleResponse response = Inl (AuthenticationError msg)) \<and>
              (code = 402 \<longrightarrow>
                 handleResponse response =
                   Inl (InsufficientCreditsError msg (credits_balance e))) \<and>
              (code = 403 \<longrightarrow>
                 handleResponse response =
                   (case m of
                      NonText s \<Rightarrow> Inl (OtherError ''TypeError'')
                    | Text s \<Rightarrow>
                        if \<exists>p u q. s = p @ u @ q \<and> length u = 10 \<and>
                             (\<forall>i<10. u ! i = ''restricted'' ! i \<or> u ! i = ''RESTRICTED'' ! i)
                        then Inl (AccountRestrictedError s (reason e))
                        else Inl (AuthenticationError s))) \<and>
              (code = 404 \<longrightarrow> handleResponse response = Inl (NotFoundError msg None None)) \<and>
              (code = 422 \<longrightarrow> handleResponse response = Inl (ValidationError msg (errors e))) \<and>
              (code = 429 \<longrightarrow>
                 handleResponse response =
                   Inl (RateLimitError msg (reset_at e) (limit e) (remaining e))) \<and>
              (500 \<le> code \<longrightarrow> handleResponse response = Inl (ServerError msg code)) \<and>
              ((code < 200 \<or> (300 \<le> code \<and> code < 500)) \<and>
               code \<notin> {401, 402, 403, 404, 422, 429} \<longrightarrow>
                 handleResponse response = Inl (ScrapeBadgerError msg)))))"
  unfolding restricted_any_case[symmetric] string_includes_iff[symmetric]
  by (auto simp: handleResponse_def parse_body_def ok_def errorData_def nullish_def
      message_string_def Let_def split: option.splits js_message.splits)

text \<open>
  The two 403 responses of the specification, an upper-case "ACCOUNT RESTRICTED", and
  responses whose carried fields are set: the credit balance of a 402, the errors map of a
  422, the reset timestamp, limit and remaining count of a 429, and the text body of a 502.
\<close>

theorem handleResponse_classification_witness:
  "handleResponse (json_response 403
      (no_fields\<lparr> message := Some (Text ''Account restricted: policy violation''),
                  reason := Some ''policy violation'' \<rparr>)) =
     Inl (AccountRestrictedError ''Account restricted: policy violation''
            (Some ''policy violation'')) \<and>
   handleResponse (json_response 403
      (no_fields\<lparr> detail := Some (Text ''ACCOUNT RESTRICTED'') \<rparr>)) =
     Inl (AccountRestrictedError ''ACCOUNT RESTRICTED'' None) \<and>
   handleResponse (json_response 403 (no_fields\<lparr> detail := Some (Text ''Forbidden'') \<rparr>)) =
     Inl (AuthenticationError ''Forbidden'') \<and>
   handleResponse (json_response 402
      (no_fields\<lparr> detail := Some (Text ''No credits''), credits_balance := Some 0 \<rparr>)) =
     Inl (InsufficientCreditsError ''No credits'' (Some 0)) \<and>
   handleResponse (json_response 422
      (no_fields\<lparr> errors := Some [(''query'', [''required''])] \<rparr>)) =
     Inl (ValidationError ''Request failed'' (Some [(''query'', [''required''])])) \<and>
   handleResponse (json_response 429
      (no_fields\<lparr> limit := Some 60, remaining := Some 0, reset_at := Some 1010 \<rparr>)) =
     Inl (RateLimitError ''Request failed'' (Some 1010) (Some 60) (Some 0)) \<and>
   handleResponse \<lparr> status = 502, content_type = Some ''text/html'',
                    json = None :: unit Json option, body_text = ''Bad Gateway'' \<rparr> =
     Inl (ServerError ''Bad Gateway'' 502)"
proof -
  note ev = json_response_def no_fields_def toLowerCase_def lower_char_def Let_def
  have a: "handleResponse (json_response 403
      (no_fields\<lparr> message := Some (Text ''Account restricted: policy violation''),
                  reason := Some ''policy violation'' \<rparr>)) =
     Inl (AccountRestrictedError ''Account restricted: policy violation''
            (Some ''policy violation''))"
    using handleResponse_classification[of "json_response 403
      (no_fields\<lparr> message := Some (Text ''Account restricted: policy violation''),
                  reason := Some ''policy violation'' \<rparr>)" "()"
      "no_fields\<lparr> message := Some (Text ''Account restricted: policy violation''),
                  reason := Some ''policy violation'' \<rparr>"
      "FromJson (Value () (no_fields\<lparr> message := Some (Text ''Account restricted: policy violation''),
                  reason := Some ''policy violation'' \<rparr>))",
      unfolded restricted_any_case[symmetric] string_includes_iff[symmetric]]
    by (simp add: ev)
  have b: "handleResponse (json_response 403
      (no_fields\<lparr> detail := Some (Text ''ACCOUNT RESTRICTED'') \<rparr>)) =
     Inl (AccountRestrictedError ''ACCOUNT RESTRICTED'' None)"
    using handleResponse_classification[of "json_response 403
      (no_fields\<lparr> detail := Some (Text ''ACCOUNT RESTRICTED'') \<rparr>)" "()"
      "no_fields\<lparr> detail := Some (Text ''ACCOUNT RESTRICTED'') \<rparr>"
      "FromJson (Value () (no_fields\<lparr> detail := Some (Text ''ACCOUNT RESTRICTED'') \<rparr>))",
      unfolded restricted_any_case[symmetric] string_includes_iff[symmetric]]
    by (simp add: ev)
  have c: "handleResponse (json_response 403 (no_fields\<lparr> detail := Some (Text ''Forbidden'') \<rparr>)) =
     Inl (AuthenticationError ''Forbidden'')"
    using handleResponse_classification[of "json_response 403
      (no_fields\<lparr> detail := Some (Text ''Forbidden'') \<rparr>)" "()"
      "no_fields\<lparr> detail := Some (Text ''Forbidden'') \<rparr>"
      "FromJson (Value () (no_fields\<lparr> detail := Some (Text ''Forbidden'') \<rparr>))",
      unfolded restricted_any_case[symmetric] string_includes_iff[symmetric]]
    by (simp add: ev)
  have d: "handleResponse (json_response 402
      (no_fields\<lparr> detail := Some (Text ''No credits''), credits_balance := Some 0 \<rparr>)) =
     Inl (InsufficientCreditsError ''No credits'' (Some 0))"
    using handleResponse_classification[of "json_response 402
      (no_fields\<lparr> detail := Some (Text ''No credits''), credits_balance := Some 0 \<rparr>)" "()"
      "no_fields\<lparr> detail := Some (Text ''No credits''), credits_balance := Some 0 \<rparr>"
      "FromJson (Value () (no_fields\<lparr> detail := Some (Text ''No credits''), credits_balance := Some 0 \<rparr>))",
      unfolded restricted_any_case[symmetric] string_includes_iff[symmetric]]
    by (simp add: ev)
  have e: "handleResponse (json_response 422
      (no_fields\<lparr> errors := Some [(''query'', [''required''])] \<rparr>)) =
     Inl (ValidationError ''Request failed'' (Some [(''query'', [''required''])]))"
    using handleResponse_classification[of "json_response 422
      (no_fields\<lparr> errors := Some [(''query'', [''required''])] \<rparr>)" "()"
      "no_fields\<lparr> errors := Some [(''query'', [''required''])] \<rparr>"
      "FromJson (Value () (no_fields\<lparr> errors := Some [(''query'', [''required''])] \<rparr>))",
      unfolded restricted_any_case[symmetric] string_includes_iff[symmetric]]
    by (simp add: ev)
  have f: "handleResponse (json_response 429
      (no_fields\<lparr> limit := Some 60, remaining := Some 0, reset_at := Some 1010 \<rparr>)) =
     Inl (RateLimitError ''Request failed'' (Some 1010) (Some 60) (Some 0))"
    using handleResponse_classification[of "json_response 429
      (no_fields\<lparr> limit := Some 60, remaining := Some 0, reset_at := Some 1010 \<rparr>)" "()"
      "no_fields\<lparr> limit := Some 60, remaining := Some 0, reset_at := Some 1010 \<rparr>"
      "FromJson (Value () (no_fields\<lparr> limit := Some 60, remaining := Some 0, reset_at := Some 1010 \<rparr>))",
      unfolded restricted_any_case[symmetric] string_includes_iff[symmetric]]
    by (simp add: ev)
  have g: "handleResponse \<lparr> status = 502, content_type = Some ''text/html'',
                    json = None :: unit Json option, body_text = ''Bad Gateway'' \<rparr> =
     Inl (ServerError ''Bad Gateway'' 502)"
    using handleResponse_classification[of "\<lparr> status = 502, content_type = Some ''text/html'',
                    json = None :: unit Json option, body_text = ''Bad Gateway'' \<rparr>" "()"
      "no_fields\<lparr> detail := Some (Text ''Bad Gateway'') \<rparr>"
      "FromText (no_fields\<lparr> detail := Some (Text ''Bad Gateway'') \<rparr>)",
      unfolded restricted_any_case[symmetric] string_includes_iff[symmetric]]
    by (simp add: ev)
  from a b c d e f g show ?thesis
    by blast
qed

subsection \<open>Request headers\<close>

text \<open>
  C5 as stated fails: the caller's headers are spread after the defaults, so a caller
  that supplies Content-Type and Accept replaces the engine's values.
\<close>

theorem requestHeaders_content_type_counterexample:
  "requestHeaders test_config
     [''Content-Type'' \<mapsto> ''text/plain'', ''Accept'' \<mapsto> ''text/html''] ''Content-Type'' =
     Some ''text/plain'' \<and>
   requestHeaders test_config
     [''Content-Type'' \<mapsto> ''text/plain'', ''Accept'' \<mapsto> ''text/html''] ''Accept'' =
     Some ''text/html''"
  by (simp add: requestHeaders_def)

text \<open>
  C5 (amended): the outgoing headers are the four defaults (Content-Type, Accept, the
  credential header X-API-Key, User-Agent) overlaid with the caller's headers. The
  credential header is always present, every header the caller supplies goes out with the
  caller's value (Content-Type, Accept and the credential header included), a default the
  caller does not supply keeps its default value, and no other header is added.
\<close>

theorem requestHeaders_merge:
  "''X-API-Key'' \<in> dom (requestHeaders config headers) \<and>
   (\<forall>name v. headers name = Some v \<longrightarrow> requestHeaders config headers name = Some v) \<and>
   (headers ''Content-Type'' = None \<longrightarrow>
      requestHeaders config headers ''Content-Type'' = Some ''application/json'') \<and>
   (headers ''Accept'' = None \<longrightarrow>
      requestHeaders config headers ''Accept'' = Some ''application/json'') \<and>
   (headers ''X-API-Key'' = None \<longrightarrow>
      requestHeaders config headers ''X-API-Key'' = Some (apiKey config)) \<and>
   (headers ''User-Agent'' = None \<longrightarrow>
      requestHeaders config headers ''User-Agent'' = Some ''scrapebadger-node/0.1.0'') \<and>
   (\<forall>name. name \<notin> {''Content-Type'', ''Accept'', ''X-API-Key'', ''User-Agent''} \<longrightarrow>
      requestHeaders config headers name = headers name)"
  by (auto simp: requestHeaders_def map_add_def split: option.splits)

text \<open>
  A caller that sets a header of its own and overrides Accept: both go out as given, and
  the credential header carries the configured key.
\<close>

theorem requestHeaders_merge_witness:
  "requestHeaders test_config [''X-Trace'' \<mapsto> ''1'', ''Accept'' \<mapsto> ''text/html''] ''Accept'' =
     Some ''text/html'' \<and>
   requestHeaders test_config [''X-Trace'' \<mapsto> ''1'', ''Accept'' \<mapsto> ''text/html''] ''X-Trace'' =
     Some ''1'' \<and>
   requestHeaders test_config [''X-Trace'' \<mapsto> ''1'', ''Accept'' \<mapsto> ''text/html''] ''X-API-Key'' =
     Some ''test-api-key''"
  using requestHeaders_merge[of test_config "[''X-Trace'' \<mapsto> ''1'', ''Accept'' \<mapsto> ''text/html'']"]
  by (simp add: test_config_def)

subsection \<open>The retry loop\<close>

lemma rethrown_iff:
  "rethrown e \<longleftrightarrow>
     is_AuthenticationError e \<or> is_NotFoundError e \<or> is_ValidationError e \<or>
     is_InsufficientCreditsError e \<or> is_AccountRestrictedError e"
  by (cases e) (simp_all add: rethrown_def instanceof_ScrapeBadgerError_def)

text \<open>One pass through the loop body, by what the attempt gives.\<close>

lemma retry_loop_rethrow:
  assumes "int attempt \<le> maxRetries config"
      and "attempt_once config (net attempt) = Inl error"
      and "rethrown error"
    shows "retry_loop config net clock attempt lastError slept =
             \<lparr> result = Inl error, attempts = attempt + 1, sleeps = slept \<rparr>"
  using assms by (subst retry_loop.simps) simp

lemma retry_loop_step:
  assumes "int attempt < maxRetries config"
      and "attempt_once config (net attempt) = Inl error"
      and "\<not> rethrown error"
    shows "retry_loop config net clock attempt lastError slept =
             retry_loop config net clock (Suc attempt) (Some error)
               (slept @ [retry_sleep config attempt error (clock attempt)])"
  using assms by (subst retry_loop.simps) simp

lemma retry_loop_last:
  assumes "int attempt = maxRetries config"
      and "attempt_once config (net attempt) = Inl error"
      and "\<not> rethrown error"
    shows "retry_loop config net clock attempt lastError slept =
             \<lparr> result = Inl error, attempts = attempt + 1, sleeps = slept \<rparr>"
  using assms by (subst retry_loop.simps) (simp add: after_loop_def nullish_def)

text \<open>
  With a negative maxRetries the loop body never runs: no request is made and the generic
  error of the fallback is thrown.
\<close>

lemma executeWithRetry_negative_maxRetries:
  "maxRetries config < 0 \<Longrightarrow>
   executeWithRetry config net clock =
     \<lparr> result = Inl (ScrapeBadgerError ''Request failed after retries''), attempts = 0,
       sleeps = [] \<rparr>"
  by (simp add: executeWithRetry_def retry_loop.simps[of _ _ _ 0] after_loop_def nullish_def)

text \<open>
  C1: when the first response is classified as an Authentication, NotFound, Validation,
  InsufficientCredits or AccountRestricted error, executeWithRetry propagates that very
  error after exactly one attempt and without sleeping, for every maxRetries of zero or
  more. (With a negative maxRetries no request is sent, so there is no response to
  classify.)
\<close>

theorem fatal_error_not_retried:
  assumes "0 \<le> maxRetries config"
      and "net 0 = Resolved response"
      and "handleResponse response = Inl error"
      and "is_AuthenticationError error \<or> is_NotFoundError error \<or>
           is_ValidationError error \<or> is_InsufficientCreditsError error \<or>
           is_AccountRestrictedError error"
    shows "executeWithRetry config net clock =
             \<lparr> result = Inl error, attempts = 1, sleeps = [] \<rparr>"
proof -
  from assms(2,3) have "attempt_once config (net 0) = Inl error"
    by (simp add: attempt_once_def fetchWithTimeout_def)
  moreover from assms(4) have "rethrown error"
    by (simp add: rethrown_iff)
  ultimately show ?thesis
    using assms(1) retry_loop_rethrow[of 0 config net error clock None "[]"]
    by (simp add: executeWithRetry_def)
qed

lemma handle_401:
  "handleResponse (json_response 401 (no_fields\<lparr> detail := Some (Text ''Invalid API key'') \<rparr>)) =
     Inl (AuthenticationError ''Invalid API key'')"
  by (simp add: handleResponse_def parse_json_response ok_def status_json_response
      errorData_def no_fields_def nullish_def message_string_def Let_def)

text \<open>An endpoint that always answers 401, with maxRetries = 3: one attempt, no sleep.\<close>

theorem fatal_error_not_retried_witness:
  "executeWithRetry test_config
     (\<lambda>k. Resolved (json_response 401 (no_fields\<lparr> detail := Some (Text ''Invalid API key'') \<rparr>)))
     (\<lambda>k. 0) =
   \<lparr> result = Inl (AuthenticationError ''Invalid API key''), attempts = 1, sleeps = [] \<rparr>"
  using fatal_error_not_retried[of test_config
      "\<lambda>k. Resolved (json_response 401 (no_fields\<lparr> detail := Some (Text ''Invalid API key'') \<rparr>))",
      OF _ _ handle_401]
  by (simp add: test_config_def)


subsection \<open>Backoff and retry exhaustion\<close>

lemma retry_sleep_cases:
  "retry_sleep config k e now =
     (case e of
        RateLimitError m (Some t) l r \<Rightarrow>
          if t \<noteq> 0 \<and> 0 < (t - now / 1000) * 1000 \<and> (t - now / 1000) * 1000 < 60000
          then (t - now / 1000) * 1000
          else real_of_int (retryDelay config) * 2 ^ k
      | _ \<Rightarrow> real_of_int (retryDelay config) * 2 ^ k)"
  by (simp add: retry_sleep_def Let_def split: SBError.splits option.splits)

lemma retry_sleep_other:
  "\<not> is_RateLimitError e \<Longrightarrow>
   retry_sleep config k e now = real_of_int (retryDelay config) * 2 ^ k"
  by (cases e) (simp_all add: retry_sleep_def)

lemma retry_loop_exhaust:
  assumes "maxRetries config = int n"
      and "\<forall>k\<le>n. attempt_once config (net k) = Inl (err k) \<and> \<not> rethrown (err k)"
      and "a \<le> n"
    shows "retry_loop config net clock a lastError slept =
             \<lparr> result = Inl (err n), attempts = n + 1,
               sleeps = slept @ map (\<lambda>k. retry_sleep config k (err k) (clock k)) [a..<n] \<rparr>"
  using assms(3)
proof (induction "n - a" arbitrary: a lastError slept)
  case 0
  then have "a = n"
    by simp
  with assms show ?case
    by (simp add: retry_loop_last)
next
  case (Suc d)
  then have lt: "a < n" and d: "d = n - Suc a"
    by simp_all
  with assms have s:
    "retry_loop config net clock a lastError slept =
       retry_loop config net clock (Suc a) (Some (err a))
         (slept @ [retry_sleep config a (err a) (clock a)])"
    by (intro retry_loop_step) auto
  from lt have "[a..<n] = a # [Suc a..<n]"
    by (simp add: upt_conv_Cons)
  with Suc.hyps(1)[OF d] lt s show ?case
    by simp
qed

lemma attempt_503:
  "attempt_once test_config
     (Resolved (json_response 503 (no_fields\<lparr> detail := Some (Text ''Service unavailable'') \<rparr>))) =
   Inl (ServerError ''Service unavailable'' 503)"
  by (simp add: attempt_json_response handleResponse_def parse_json_response ok_def
      status_json_response errorData_def no_fields_def nullish_def message_string_def Let_def)

lemma attempt_429:
  "attempt_once test_config
     (Resolved (json_response 429
        (no_fields\<lparr> detail := Some (Text ''Slow down''), reset_at := Some t \<rparr>))) =
   Inl (RateLimitError ''Slow down'' (Some t) None None)"
  by (simp add: attempt_json_response handleResponse_def parse_json_response ok_def
      status_json_response errorData_def no_fields_def nullish_def message_string_def Let_def)

text \<open>
  C2 as stated fails: an endpoint that always answers 429 with a reset timestamp ten
  seconds ahead of the clock (attempt \<open>k\<close> is handled at 1000 + 10 k seconds and told to wait
  until 1010 + 10 k) fails every attempt with a transient error, and the engine sleeps
  10000 ms after each of the first three attempts, not 1000, 2000, 4000.
\<close>

theorem rate_limited_endpoint_counterexample:
  "executeWithRetry test_config
     (\<lambda>k. Resolved (json_response 429
             (no_fields\<lparr> detail := Some (Text ''Slow down''),
                         reset_at := Some (1010 + 10 * real k) \<rparr>)))
     (\<lambda>k. 1000000 + 10000 * real k) =
   \<lparr> result = Inl (RateLimitError ''Slow down'' (Some 1040) None None), attempts = 4,
     sleeps = [10000, 10000, 10000] \<rparr> \<and>
   [10000, 10000, 10000] \<noteq> map (\<lambda>k. real_of_int (retryDelay test_config) * 2 ^ k) [0..<3]"
proof -
  have "executeWithRetry test_config
          (\<lambda>k. Resolved (json_response 429
                  (no_fields\<lparr> detail := Some (Text ''Slow down''),
                              reset_at := Some (1010 + 10 * real k) \<rparr>)))
          (\<lambda>k. 1000000 + 10000 * real k) =
        \<lparr> result = Inl (RateLimitError ''Slow down'' (Some 1040) None None), attempts = 4,
          sleeps = [10000, 10000, 10000] \<rparr>"
    by (simp add: executeWithRetry_def retry_loop.simps attempt_429 rethrown_def
        retry_sleep_def after_loop_def nullish_def
        test_config_def[THEN arg_cong, of maxRetries]
        test_config_def[THEN arg_cong, of retryDelay])
  then show ?thesis
    by (simp add: test_config_def upt_rec)
qed

text \<open>
  C2 (amended): for every configuration with retryDelay = d and maxRetries = n (a count),
  if every attempt fails with an error that is not of the five fatal kinds, the engine
  makes exactly n + 1 attempts and then propagates the error of the last attempt itself.
  After attempt k, for each k below n, it sleeps d * 2^k, except after a RateLimit error
  whose reset timestamp is non-zero and lies more than 0 and less than 60 seconds ahead of
  the clock, where it sleeps that remaining time instead. In particular, when none of the
  errors is a RateLimit error (an always-503 endpoint), the sleeps are d, 2d, 4d, ...
\<close>

theorem retries_exhausted:
  assumes "maxRetries config = int n"
      and "\<forall>k\<le>n. attempt_once config (net k) = Inl (err k) \<and>
             \<not> (is_AuthenticationError (err k) \<or> is_NotFoundError (err k) \<or>
                is_ValidationError (err k) \<or> is_InsufficientCreditsError (err k) \<or>
                is_AccountRestrictedError (err k))"
    shows "executeWithRetry config net clock =
             \<lparr> result = Inl (err n), attempts = n + 1,
               sleeps = map (\<lambda>k. case err k of
                                   RateLimitError m (Some t) l r \<Rightarrow>
                                     if t \<noteq> 0 \<and> 0 < (t - clock k / 1000) * 1000 \<and>
                                        (t - clock k / 1000) * 1000 < 60000
                                     then (t - clock k / 1000) * 1000
                                     else real_of_int (retryDelay config) * 2 ^ k
                                 | _ \<Rightarrow> real_of_int (retryDelay config) * 2 ^ k)
                            [0..<n] \<rparr> \<and>
           ((\<forall>k<n. \<not> is_RateLimitError (err k)) \<longrightarrow>
            sleeps (executeWithRetry config net clock) =
              map (\<lambda>k. real_of_int (retryDelay config) * 2 ^ k) [0..<n])"
proof -
  from assms(2) have tr:
    "\<forall>k\<le>n. attempt_once config (net k) = Inl (err k) \<and> \<not> rethrown (err k)"
    by (simp add: rethrown_iff)
  have run:
    "executeWithRetry config net clock =
       \<lparr> result = Inl (err n), attempts = n + 1,
         sleeps = map (\<lambda>k. retry_sleep config k (err k) (clock k)) [0..<n] \<rparr>"
    using retry_loop_exhaust[OF assms(1) tr, of 0 clock None "[]"]
    by (simp add: executeWithRetry_def)
  have "(\<forall>k<n. \<not> is_RateLimitError (err k)) \<longrightarrow>
        map (\<lambda>k. retry_sleep config k (err k) (clock k)) [0..<n] =
        map (\<lambda>k. real_of_int (retryDelay config) * 2 ^ k) [0..<n]"
    by (simp add: retry_sleep_other)
  with run show ?thesis
    by (simp add: retry_sleep_cases)
qed

text \<open>
  An endpoint that always answers 503, with retryDelay = 1000 and maxRetries = 3: four
  attempts, sleeps of 1000, 2000 and 4000 ms, and the ServerError of the last attempt.
\<close>

theorem retries_exhausted_witness:
  "executeWithRetry test_config
     (\<lambda>k. Resolved (json_response 503 (no_fields\<lparr> detail := Some (Text ''Service unavailable'') \<rparr>)))
     (\<lambda>k. 0) =
   \<lparr> result = Inl (ServerError ''Service unavailable'' 503), attempts = 4,
     sleeps = [1000, 2000, 4000] \<rparr>"
  using retries_exhausted[of test_config 3
      "\<lambda>k. Resolved (json_response 503 (no_fields\<lparr> detail := Some (Text ''Service unavailable'') \<rparr>))"
      "\<lambda>k. ServerError ''Service unavailable'' 503" "\<lambda>k. 0"] attempt_503
  by (simp add: test_config_def upt_rec numeral_3_eq_3)

subsection \<open>The rate-limit override\<close>

lemma retry_loop_sleeps_extend:
  "\<exists>rest. sleeps (retry_loop config net clock a lastError slept) = slept @ rest"
proof (induction config net clock a lastError slept rule: retry_loop.induct)
  case (1 config net clock attempt lastError slept)
  show ?case
  proof (cases "int attempt < maxRetries config \<and>
                (\<exists>e. attempt_once config (net attempt) = Inl e \<and> \<not> rethrown e)")
    case True
    then obtain e where e: "attempt_once config (net attempt) = Inl e" "\<not> rethrown e"
      by blast
    from True e "1.IH"[of e] obtain rest where
      "sleeps (retry_loop config net clock (attempt + 1) (Some e)
                 (slept @ [retry_sleep config attempt e (clock attempt)])) =
         (slept @ [retry_sleep config attempt e (clock attempt)]) @ rest"
      by auto
    with True e show ?thesis
      by (subst retry_loop.simps) simp
  next
    case False
    then show ?thesis
      by (subst retry_loop.simps) (auto split: sum.splits)
  qed
qed

lemma retry_loop_reach:
  assumes "\<forall>j. a \<le> j \<and> j < k \<longrightarrow>
             (\<exists>e. attempt_once config (net j) = Inl e \<and> \<not> rethrown e)"
      and "int k \<le> maxRetries config"
      and "a \<le> k"
    shows "\<exists>last' slept'. retry_loop config net clock a lastError slept =
                            retry_loop config net clock k last' slept' \<and>
                          length slept' = length slept + (k - a)"
  using assms(1,3)
proof (induction "k - a" arbitrary: a lastError slept)
  case 0
  then have "a = k"
    by simp
  then show ?case
    by auto
next
  case (Suc d)
  then have lt: "a < k" and d: "d = k - Suc a"
    by simp_all
  with Suc.prems obtain e where e: "attempt_once config (net a) = Inl e" "\<not> rethrown e"
    by auto
  from lt assms(2) have "int a < maxRetries config"
    by simp
  with e have s:
    "retry_loop config net clock a lastError slept =
       retry_loop config net clock (Suc a) (Some e)
         (slept @ [retry_sleep config a e (clock a)])"
    by (intro retry_loop_step)
  from Suc.prems lt have
    "\<forall>j. Suc a \<le> j \<and> j < k \<longrightarrow> (\<exists>e. attempt_once config (net j) = Inl e \<and> \<not> rethrown e)"
    by auto
  from Suc.hyps(1)[OF d this, of "Some e" "slept @ [retry_sleep config a e (clock a)]"] lt
  obtain last' slept' where
    "retry_loop config net clock (Suc a) (Some e)
       (slept @ [retry_sleep config a e (clock a)]) =
     retry_loop config net clock k last' slept'"
    "length slept' = length slept + (k - a)"
    by auto
  with s show ?case
    by auto
qed

text \<open>
  A fatal error ends the run at whatever attempt it occurs, even if attempts remain: after
  \<open>k\<close> retried failures the run has made \<open>k + 1\<close> attempts and slept \<open>k\<close> times.
\<close>

lemma fatal_error_at_attempt:
  assumes "\<forall>j<k. \<exists>e. attempt_once config (net j) = Inl e \<and> \<not> rethrown e"
      and "int k \<le> maxRetries config"
      and "attempt_once config (net k) = Inl error"
      and "rethrown error"
    shows "result (executeWithRetry config net clock) = Inl error \<and>
           attempts (executeWithRetry config net clock) = k + 1 \<and>
           length (sleeps (executeWithRetry config net clock)) = k"
proof -
  from assms(1) have
    "\<forall>j. 0 \<le> j \<and> j < k \<longrightarrow> (\<exists>e. attempt_once config (net j) = Inl e \<and> \<not> rethrown e)"
    by simp
  from retry_loop_reach[OF this assms(2), of clock None "[]"]
  obtain last' slept' where
    r: "executeWithRetry config net clock = retry_loop config net clock k last' slept'" and
    len: "length slept' = k"
    by (auto simp: executeWithRetry_def)
  from assms(2-4) have
    "retry_loop config net clock k last' slept' =
       \<lparr> result = Inl error, attempts = k + 1, sleeps = slept' \<rparr>"
    by (intro retry_loop_rethrow)
  with r len show ?thesis
    by simp
qed

text \<open>
  C3: let attempt \<open>k\<close> be reached (every earlier attempt failed with an error that is not
  fatal), not be the final one, and fail with a RateLimit error; let the clock read a time
  not before the epoch. With serverDelay = resetTimestamp - now in seconds, the engine then
  sleeps serverDelay (as milliseconds) when 0 < serverDelay < 60, and the exponential value
  retryDelay * 2^k when the reset timestamp is absent or serverDelay is zero, negative or
  at least 60 seconds. That sleep is the one recorded after attempt \<open>k\<close>.
\<close>

theorem rate_limit_override:
  assumes "\<forall>j<k. \<exists>e. attempt_once config (net j) = Inl e \<and>
             \<not> (is_AuthenticationError e \<or> is_NotFoundError e \<or> is_ValidationError e \<or>
                is_InsufficientCreditsError e \<or> is_AccountRestrictedError e)"
      and "int k < maxRetries config"
      and "attempt_once config (net k) = Inl (RateLimitError msg resetTimestamp lmt rmn)"
      and "0 \<le> clock k"
    shows "k < length (sleeps (executeWithRetry config net clock)) \<and>
           sleeps (executeWithRetry config net clock) ! k =
             (case resetTimestamp of
                None \<Rightarrow> real_of_int (retryDelay config) * 2 ^ k
              | Some t \<Rightarrow>
                  (let serverDelay = t - clock k / 1000
                   in if 0 < serverDelay \<and> serverDelay < 60 then serverDelay * 1000
                      else real_of_int (retryDelay config) * 2 ^ k))"
proof -
  let ?e = "RateLimitError msg resetTimestamp lmt rmn"
  let ?d = "retry_sleep config k ?e (clock k)"
  from assms(1) have
    "\<forall>j. 0 \<le> j \<and> j < k \<longrightarrow> (\<exists>e. attempt_once config (net j) = Inl e \<and> \<not> rethrown e)"
    by (simp add: rethrown_iff)
  from retry_loop_reach[OF this, of clock None "[]"] assms(2)
  obtain last' slept' where
    r: "executeWithRetry config net clock = retry_loop config net clock k last' slept'" and
    len: "length slept' = k"
    by (auto simp: executeWithRetry_def)
  have "\<not> rethrown ?e"
    by (simp add: rethrown_iff)
  with assms(2,3) have
    "retry_loop config net clock k last' slept' =
       retry_loop config net clock (Suc k) (Some ?e) (slept' @ [?d])"
    by (intro retry_loop_step)
  with r retry_loop_sleeps_extend[of config net clock "Suc k" "Some ?e" "slept' @ [?d]"]
  obtain rest where sl: "sleeps (executeWithRetry config net clock) = slept' @ [?d] @ rest"
    by auto
  with len have nth: "sleeps (executeWithRetry config net clock) ! k = ?d"
    by (simp add: nth_append)
  have "?d = (case resetTimestamp of
                None \<Rightarrow> real_of_int (retryDelay config) * 2 ^ k
              | Some t \<Rightarrow>
                  (let serverDelay = t - clock k / 1000
                   in if 0 < serverDelay \<and> serverDelay < 60 then serverDelay * 1000
                      else real_of_int (retryDelay config) * 2 ^ k))"
  proof (cases resetTimestamp)
    case None
    then show ?thesis
      by (simp add: retry_sleep_def)
  next
    case (Some t)
    show ?thesis
    proof (cases "t = 0")
      case True
      with assms(4) Some show ?thesis
        by (simp add: retry_sleep_def Let_def)
    next
      case False
      have "(0 < (t - clock k / 1000) * 1000 \<and> (t - clock k / 1000) * 1000 < 60000) =
            (0 < t - clock k / 1000 \<and> t - clock k / 1000 < 60)"
        by auto
      with False Some show ?thesis
        by (simp add: retry_sleep_def Let_def)
    qed
  qed
  with nth sl len show ?thesis
    by simp
qed

text \<open>
  The two 429 responses of the specification, with the clock at 1000000 ms: a reset
  timestamp 10 seconds ahead gives a sleep of 10000 ms, one 90 seconds ahead gives the
  exponential 1000 ms.
\<close>

theorem rate_limit_override_witness:
  "sleeps (executeWithRetry test_config
     (\<lambda>k. Resolved (json_response 429
             (no_fields\<lparr> detail := Some (Text ''Slow down''), reset_at := Some 1010 \<rparr>)))
     (\<lambda>k. 1000000)) ! 0 = 10000 \<and>
   sleeps (executeWithRetry test_config
     (\<lambda>k. Resolved (json_response 429
             (no_fields\<lparr> detail := Some (Text ''Slow down''), reset_at := Some 1090 \<rparr>)))
     (\<lambda>k. 1000000)) ! 0 = 1000"
  using rate_limit_override[of 0 test_config
        "\<lambda>k. Resolved (json_response 429
                (no_fields\<lparr> detail := Some (Text ''Slow down''), reset_at := Some 1010 \<rparr>))"
        "''Slow down''" "Some 1010" None None "\<lambda>k. 1000000"]
      rate_limit_override[of 0 test_config
        "\<lambda>k. Resolved (json_response 429
                (no_fields\<lparr> detail := Some (Text ''Slow down''), reset_at := Some 1090 \<rparr>))"
        "''Slow down''" "Some 1090" None None "\<lambda>k. 1000000"]
      attempt_429[of 1010] attempt_429[of 1090]
  by (simp add: test_config_def)


section \<open>Properties of the configuration resolver\<close>

text \<open>
  C9 as stated fails: with an explicit empty key the constructor throws although the
  environment variable holds a key. The \<^verbatim>\<open>??\<close> operator keeps an explicit empty string, so
  the environment is not consulted, and \<^verbatim>\<open>!apiKey\<close> then rejects it.
\<close>

theorem constructor_empty_explicit_key_counterexample:
  "getApiKeyFromEnv (Some [''SCRAPEBADGER_API_KEY'' \<mapsto> ''k'']) = Some ''k'' \<and>
   ScrapeBadger_constructor (Some [''SCRAPEBADGER_API_KEY'' \<mapsto> ''k''])
     \<lparr> cfg_apiKey = Some '''', cfg_baseUrl = None, cfg_timeout = None,
       cfg_maxRetries = None, cfg_retryDelay = None \<rparr> =
   Inl (Error (''API key is required. Pass it in the config or set '' @
               ''SCRAPEBADGER_API_KEY environment variable.''))"
  by (simp add: ScrapeBadger_constructor_def getApiKeyFromEnv_def truthy_def)

text \<open>
  C9 (amended): the credential is the explicit key whenever one is supplied (even an empty
  one) and the environment variable otherwise. Construction fails with the
  missing-credential error exactly when that credential is absent or the empty string;
  otherwise it yields a resolved configuration with that credential, in which every field
  the caller left out has its default (base URL https://api.scrapebadger.com, timeout
  30000, maxRetries 3, retryDelay 1000) and every field the caller supplied has the
  caller's value. The result is a function of the configuration and the environment alone,
  so no network activity precedes the failure.
\<close>

theorem constructor_resolves_credential:
  "ScrapeBadger_constructor penv config =
     (case (case cfg_apiKey config of Some k \<Rightarrow> Some k | None \<Rightarrow> getApiKeyFromEnv penv) of
        None \<Rightarrow> Inl (Error (''API key is required. Pass it in the config or set '' @
                           ''SCRAPEBADGER_API_KEY environment variable.''))
      | Some k \<Rightarrow>
          if k = ''''
          then Inl (Error (''API key is required. Pass it in the config or set '' @
                           ''SCRAPEBADGER_API_KEY environment variable.''))
          else Inr \<lparr> apiKey = k,
                     baseUrl = (case cfg_baseUrl config of
                                  Some b \<Rightarrow> b | None \<Rightarrow> ''https://api.scrapebadger.com''),
                     timeout = (case cfg_timeout config of Some t \<Rightarrow> t | None \<Rightarrow> 30000),
                     maxRetries = (case cfg_maxRetries config of Some n \<Rightarrow> n | None \<Rightarrow> 3),
                     retryDelay = (case cfg_retryDelay config of
                                     Some d \<Rightarrow> d | None \<Rightarrow> 1000) \<rparr>)"
  by (simp add: ScrapeBadger_constructor_def resolveConfig_def truthy_def nullish_def
      DEFAULT_BASE_URL_def DEFAULT_TIMEOUT_def DEFAULT_MAX_RETRIES_def
      DEFAULT_RETRY_DELAY_def split: option.splits)

text \<open>
  The amended statement at concrete inputs: the environment key is used when no explicit
  key is given, an explicit key wins over it, and nothing at all is an error.
\<close>

theorem constructor_resolves_credential_witness:
  "ScrapeBadger_constructor (Some [''SCRAPEBADGER_API_KEY'' \<mapsto> ''env-key''])
     \<lparr> cfg_apiKey = None, cfg_baseUrl = None, cfg_timeout = Some 60000,
       cfg_maxRetries = None, cfg_retryDelay = None \<rparr> =
   Inr \<lparr> apiKey = ''env-key'', baseUrl = ''https://api.scrapebadger.com'', timeout = 60000,
         maxRetries = 3, retryDelay = 1000 \<rparr> \<and>
   ScrapeBadger_constructor (Some [''SCRAPEBADGER_API_KEY'' \<mapsto> ''env-key''])
     \<lparr> cfg_apiKey = Some ''explicit'', cfg_baseUrl = None, cfg_timeout = None,
       cfg_maxRetries = Some 5, cfg_retryDelay = None \<rparr> =
   Inr \<lparr> apiKey = ''explicit'', baseUrl = ''https://api.scrapebadger.com'', timeout = 30000,
         maxRetries = 5, retryDelay = 1000 \<rparr> \<and>
   ScrapeBadger_constructor None
     \<lparr> cfg_apiKey = None, cfg_baseUrl = None, cfg_timeout = None,
       cfg_maxRetries = None, cfg_retryDelay = None \<rparr> =
   Inl (Error (''API key is required. Pass it in the config or set '' @
               ''SCRAPEBADGER_API_KEY environment variable.''))"
  by (simp add: constructor_resolves_credential getApiKeyFromEnv_def)


section \<open>Properties of the pagination engine\<close>

text \<open>
  C8 as stated fails at the empty-string cursor: the response keeps the cursor it was
  given, so \<open>nextCursor\<close> is present, and \<open>hasMore\<close> is false.
\<close>

theorem hasMore_empty_cursor_counterexample:
  "hasMore (createPaginatedResponse ([] :: nat list) (Some '''')) \<noteq>
   (nextCursor (createPaginatedResponse ([] :: nat list) (Some '''')) \<noteq> None)"
  by (simp add: createPaginatedResponse_def truthy_def)

text \<open>
  C8 (amended): for every item list and every optional cursor, the response built by
  createPaginatedResponse carries the items and the cursor unchanged, and its hasMore is
  true if and only if a non-empty cursor was supplied; hasMore is computed from the cursor
  alone. In particular createPaginatedResponse([], undefined).hasMore is false and
  createPaginatedResponse([x], "c").hasMore is true.
\<close>

theorem createPaginatedResponse_hasMore:
  "data (createPaginatedResponse items cursor) = items \<and>
   nextCursor (createPaginatedResponse items cursor) = cursor \<and>
   hasMore (createPaginatedResponse items cursor) = (\<exists>c. cursor = Some c \<and> c \<noteq> '''') \<and>
   hasMore (createPaginatedResponse ([] :: 'a list) None) = False \<and>
   hasMore (createPaginatedResponse [x] (Some ''c'')) = True"
  by (auto simp: createPaginatedResponse_def truthy_def split: option.splits)

lemma yield_page_no_cap: "yield_page None xs n = (xs, n + length xs, False)"
  by (induction xs arbitrary: n) auto

lemma paginate_loop_no_cap:
  assumes "serves fetchPage c s ps"
      and "ps \<noteq> []"
      and "\<forall>p \<in> set (butlast ps). truthy (nextCursor p)"
      and "\<not> truthy (nextCursor (last ps))"
      and "length ps \<le> fuel"
    shows "paginate_loop fuel fetchPage None c n s =
             Some \<lparr> yielded = concat (map data ps),
                    calls = c # map nextCursor (butlast ps), thrown = None \<rparr>"
  using assms
proof (induction ps arbitrary: c s n fuel)
  case Nil
  then show ?case by simp
next
  case (Cons p ps)
  then obtain fuel' where fuel: "fuel = Suc fuel'"
    by (cases fuel) auto
  from Cons.prems(1) obtain s' where
    f: "fetchPage c s = (Inr p, s')" and sv: "serves fetchPage (nextCursor p) s' ps"
    by (auto split: prod.splits sum.splits)
  show ?case
  proof (cases ps)
    case Nil
    with Cons.prems f fuel show ?thesis
      by (simp add: yield_page_no_cap)
  next
    case (Cons q qs)
    with Cons.prems have t: "truthy (nextCursor p)"
      by simp
    have "paginate_loop fuel' fetchPage None (nextCursor p) (n + length (data p)) s' =
            Some \<lparr> yielded = concat (map data ps),
                   calls = nextCursor p # map nextCursor (butlast ps), thrown = None \<rparr>"
      using Cons.IH[OF sv, of fuel' "n + length (data p)"] Cons.prems Cons fuel by simp
    with f fuel t Cons show ?thesis
      by (simp add: yield_page_no_cap)
  qed
qed

text \<open>
  Conversely, an uncapped iteration that ends without an error has stopped at a page whose
  nextCursor is absent or empty, all pages before it carrying a non-empty one; and against
  an upstream that always returns a non-empty cursor it never ends.
\<close>

lemma paginate_loop_stops_at_falsy_cursor:
  assumes "paginate_loop fuel fetchPage None c n s = Some r"
      and "thrown r = None"
    shows "\<exists>ps. serves fetchPage c s ps \<and> ps \<noteq> [] \<and>
                (\<forall>p \<in> set (butlast ps). truthy (nextCursor p)) \<and>
                \<not> truthy (nextCursor (last ps)) \<and> length ps \<le> fuel"
  using assms
proof (induction fuel arbitrary: c n s r)
  case 0
  then show ?case by simp
next
  case (Suc fuel)
  obtain x s' where f: "fetchPage c s = (x, s')"
    by fastforce
  show ?case
  proof (cases x)
    case (Inl e)
    with f Suc.prems show ?thesis by auto
  next
    case (Inr p)
    show ?thesis
    proof (cases "truthy (nextCursor p)")
      case False
      with f Inr have "serves fetchPage c s [p]"
        by simp
      with False show ?thesis
        by (intro exI[of _ "[p]"]) simp
    next
      case True
      with f Inr Suc.prems obtain r' where
        r': "paginate_loop fuel fetchPage None (nextCursor p) (n + length (data p)) s' = Some r'"
        and "thrown r' = None"
        by (auto simp: yield_page_no_cap)
      from Suc.IH[OF this] obtain ps where ps:
        "serves fetchPage (nextCursor p) s' ps" "ps \<noteq> []"
        "\<forall>q \<in> set (butlast ps). truthy (nextCursor q)"
        "\<not> truthy (nextCursor (last ps))" "length ps \<le> fuel"
        by blast
      with f Inr True show ?thesis
        by (intro exI[of _ "p # ps"]) simp
    qed
  qed
qed

lemma paginate_never_stops:
  assumes "\<forall>c s. \<exists>p s'. fetchPage c s = (Inr p, s') \<and> truthy (nextCursor p)"
  shows "paginate_loop fuel fetchPage None c n s = None"
proof (induction fuel arbitrary: c n s)
  case 0
  then show ?case by simp
next
  case (Suc fuel)
  from assms obtain p s' where "fetchPage c s = (Inr p, s')" "truthy (nextCursor p)"
    by blast
  with Suc show ?case
    by (simp add: yield_page_no_cap)
qed

text \<open>
  C6 as stated fails: a page whose nextCursor is the empty string ends the iteration
  although its cursor is not absent, and the pages after it are never fetched.
\<close>

theorem paginate_empty_cursor_counterexample:
  "nextCursor \<lparr> data = [1, 2 :: nat], nextCursor = Some '''', hasMore = False \<rparr> \<noteq> None \<and>
   paginate 2 mock_fetchPage None
     [\<lparr> data = [1, 2 :: nat], nextCursor = Some '''', hasMore = False \<rparr>,
      \<lparr> data = [3], nextCursor = None, hasMore = False \<rparr>] =
   Some \<lparr> yielded = [1, 2], calls = [None], thrown = None \<rparr>"
  by (simp add: paginate_def mock_fetchPage_def truthy_def numeral_2_eq_2)

text \<open>
  C6 (amended): with no item cap, when the upstream serves the pages \<open>ps\<close> (the first for an
  absent cursor, each later one for the nextCursor of the page before), every page but the
  last carries a non-empty nextCursor and the last carries an absent or empty one, then
  paginate terminates (any fuel of at least one unit per page suffices), yields exactly the
  items of all pages in order, and calls the page fetcher exactly once per page, first
  with an absent cursor and then with each page's nextCursor. It stops exactly at the first
  page whose nextCursor is absent or the empty string.
\<close>

theorem paginate_no_cap:
  assumes "serves fetchPage None s ps"
      and "ps \<noteq> []"
      and "\<forall>p \<in> set (butlast ps). truthy (nextCursor p)"
      and "\<not> truthy (nextCursor (last ps))"
      and "length ps \<le> fuel"
    shows "paginate fuel fetchPage None s =
             Some \<lparr> yielded = concat (map data ps),
                    calls = None # map nextCursor (butlast ps), thrown = None \<rparr> \<and>
           map_option (\<lambda>r. length (calls r)) (paginate fuel fetchPage None s) =
             Some (length ps)"
  using paginate_loop_no_cap[OF assms] assms(2) by (simp add: paginate_def)

text \<open>
  The test of tests/pagination.test.ts: three pages of sizes 2, 2 and 1 give the five items
  in order and exactly three fetch calls.
\<close>

theorem paginate_no_cap_witness:
  "paginate 3 mock_fetchPage None
     [\<lparr> data = [1, 2 :: nat], nextCursor = Some ''page2'', hasMore = True \<rparr>,
      \<lparr> data = [3, 4], nextCursor = Some ''page3'', hasMore = True \<rparr>,
      \<lparr> data = [5], nextCursor = None, hasMore = False \<rparr>] =
   Some \<lparr> yielded = [1, 2, 3, 4, 5], calls = [None, Some ''page2'', Some ''page3''],
          thrown = None \<rparr>"
  using paginate_no_cap[of mock_fetchPage
      "[\<lparr> data = [1, 2 :: nat], nextCursor = Some ''page2'', hasMore = True \<rparr>,
        \<lparr> data = [3, 4], nextCursor = Some ''page3'', hasMore = True \<rparr>,
        \<lparr> data = [5], nextCursor = None, hasMore = False \<rparr>]"
      "[\<lparr> data = [1, 2 :: nat], nextCursor = Some ''page2'', hasMore = True \<rparr>,
        \<lparr> data = [3, 4], nextCursor = Some ''page3'', hasMore = True \<rparr>,
        \<lparr> data = [5], nextCursor = None, hasMore = False \<rparr>]" 3]
  by (simp add: mock_fetchPage_def truthy_def)


lemma absent_for_empty_apply:
  "absent_for_empty fetchPage c s =
     (case fetchPage c s of
        (Inl e, s') \<Rightarrow> (Inl e, s')
      | (Inr p, s') \<Rightarrow> (Inr (without_empty_cursor p), s'))"
  by (simp add: absent_for_empty_def)

lemma paginate_loop_absent_for_empty:
  "paginate_loop fuel (absent_for_empty fetchPage) maxItems c n s =
   paginate_loop fuel fetchPage maxItems c n s"
proof (induction fuel arbitrary: c n s)
  case 0
  then show ?case by simp
next
  case (Suc fuel)
  obtain r s' where f: "fetchPage c s = (r, s')"
    by fastforce
  show ?case
  proof (cases r)
    case (Inl e)
    with f have "absent_for_empty fetchPage c s = (Inl e, s')"
      by (simp add: absent_for_empty_apply)
    with f Inl show ?thesis by simp
  next
    case (Inr p)
    with f have a: "absent_for_empty fetchPage c s = (Inr (without_empty_cursor p), s')"
      by (simp add: absent_for_empty_apply)
    have d: "data (without_empty_cursor p) = data p"
      by (simp add: without_empty_cursor_def)
    have t: "truthy (nextCursor (without_empty_cursor p)) = truthy (nextCursor p)"
      by (simp add: without_empty_cursor_def truthy_def)
    have n: "truthy (nextCursor p) \<Longrightarrow> nextCursor (without_empty_cursor p) = nextCursor p"
      by (auto simp: without_empty_cursor_def truthy_def)
    show ?thesis
      using n by (simp add: f Inr a d t Suc split: prod.splits)
  qed
qed

lemma paginate_loop_falsy_cursor:
  assumes "fetchPage c s = (Inr p, s')"
      and "nextCursor p = Some '''' \<or> nextCursor p = None"
    shows "paginate_loop (Suc fuel) fetchPage maxItems c n s =
             Some \<lparr> yielded = fst (yield_page maxItems (data p) n), calls = [c],
                    thrown = None \<rparr>"
  using assms by (auto simp: truthy_def split: prod.splits)

text \<open>
  C10: an empty-string cursor is treated as an absent one. createPaginatedResponse keeps
  the empty string as nextCursor and sets hasMore to false. At any point of the iteration,
  with or without an item cap, a page whose nextCursor is the empty string ends paginate
  with that page's items and no further fetchPage call, which is the very result for a page
  whose nextCursor is absent. And a page fetcher whose empty-string cursors are all replaced
  by absent ones gives the same items, the same fetchPage calls and the same outcome.
\<close>

theorem empty_cursor_treated_as_absent:
  "createPaginatedResponse items (Some '''') =
     \<lparr> data = items, nextCursor = Some '''', hasMore = False \<rparr> \<and>
   (fetchPage c s = (Inr p, s') \<and> (nextCursor p = Some '''' \<or> nextCursor p = None) \<longrightarrow>
    paginate_loop (Suc fuel) fetchPage maxItems c n s =
      Some \<lparr> yielded = fst (yield_page maxItems (data p) n), calls = [c], thrown = None \<rparr>) \<and>
   paginate fuel (absent_for_empty fetchPage) maxItems s = paginate fuel fetchPage maxItems s"
  using paginate_loop_falsy_cursor[of fetchPage c s p s' fuel maxItems n]
  by (simp add: createPaginatedResponse_def truthy_def paginate_def
      paginate_loop_absent_for_empty)

text \<open>
  A mocked upstream whose first page carries the empty-string cursor and which has a
  second page queued: both items of the first page are yielded and the second page is
  never fetched.
\<close>

theorem empty_cursor_treated_as_absent_witness:
  "paginate_loop (Suc 4) mock_fetchPage None None 0
     [\<lparr> data = [''a'', ''b''], nextCursor = Some '''', hasMore = False \<rparr>,
      \<lparr> data = [''c''], nextCursor = Some ''more'', hasMore = True \<rparr>] =
   Some \<lparr> yielded = [''a'', ''b''], calls = [None], thrown = None \<rparr>"
  using empty_cursor_treated_as_absent[of "[]" mock_fetchPage None
      "[\<lparr> data = [''a'', ''b''], nextCursor = Some '''', hasMore = False \<rparr>,
        \<lparr> data = [''c''], nextCursor = Some ''more'', hasMore = True \<rparr>]"
      "\<lparr> data = [''a'', ''b''], nextCursor = Some '''', hasMore = False \<rparr>"
      "[\<lparr> data = [''c''], nextCursor = Some ''more'', hasMore = True \<rparr>]" 4 None 0]
  apply (simp add: mock_fetchPage_def)
  apply (elim conjE)
  apply assumption
  done

text \<open>
  The item cap. With a cap \<open>m\<close> of at least one and fewer than \<open>m\<close> items yielded so far, the
  inner loop yields the items up to the cap and returns as soon as the cap is reached.
\<close>

lemma yield_page_cap:
  "int n < m \<Longrightarrow>
   yield_page (Some m) xs n =
     (take (nat m - n) xs, n + min (length xs) (nat m - n), nat m - n \<le> length xs)"
proof (induction xs arbitrary: n)
  case Nil
  then show ?case by simp
next
  case (Cons x xs)
  show ?case
  proof (cases "int (n + 1) \<ge> m")
    case True
    with Cons.prems have "nat m - n = 1"
      by linarith
    with True show ?thesis by simp
  next
    case False
    then have lt: "int (n + 1) < m"
      by simp
    then have "n + 1 < nat m"
      by linarith
    then have k: "nat m - n = Suc (nat m - (n + 1))"
      by simp
    from Cons.IH[OF lt] False k show ?thesis by simp
  qed
qed

text \<open>
  For a cap \<open>m\<close> of at least one, against an upstream that ends (its last page has an absent
  or empty cursor) or holds enough items to reach the cap, paginate yields the first \<open>m\<close>
  items of the upstream (all of them when there are fewer), and its fetch calls are an
  initial part of the calls the uncapped iteration makes.
\<close>

lemma paginate_loop_cap:
  assumes "serves fetchPage c s ps"
      and "ps \<noteq> []"
      and "\<forall>p \<in> set (butlast ps). truthy (nextCursor p)"
      and "\<not> truthy (nextCursor (last ps)) \<or> nat m - n \<le> length (concat (map data ps))"
      and "length ps \<le> fuel"
      and "int n < m"
    shows "\<exists>r. paginate_loop fuel fetchPage (Some m) c n s = Some r \<and>
               yielded r = take (nat m - n) (concat (map data ps)) \<and>
               thrown r = None \<and>
               prefix (calls r) (c # map nextCursor (butlast ps))"
  using assms
proof (induction ps arbitrary: c s n fuel)
  case Nil
  then show ?case by simp
next
  case (Cons p ps)
  then obtain fuel' where fuel: "fuel = Suc fuel'"
    by (cases fuel) auto
  from Cons.prems(1) obtain s' where
    f: "fetchPage c s = (Inr p, s')" and sv: "serves fetchPage (nextCursor p) s' ps"
    by (auto split: prod.splits sum.splits)
  note yp = yield_page_cap[OF Cons.prems(6), of "data p"]
  show ?case
  proof (cases "nat m - n \<le> length (data p)")
    case True
    with f fuel yp show ?thesis by simp
  next
    case False
    then have more: "int (n + length (data p)) < m"
      by linarith
    from False have mn: "min (length (data p)) (nat m - n) = length (data p)"
      by simp
    show ?thesis
    proof (cases ps)
      case Nil
      with Cons.prems(4) False have "\<not> truthy (nextCursor p)"
        by simp
      with Nil f fuel yp False show ?thesis by simp
    next
      case (Cons q qs)
      with Cons.prems have t: "truthy (nextCursor p)"
        by simp
      from Cons Cons.prems(4) have ends:
        "\<not> truthy (nextCursor (last ps)) \<or>
         nat m - (n + length (data p)) \<le> length (concat (map data ps))"
        by auto
      from Cons Cons.prems have rest:
        "ps \<noteq> []" "\<forall>p \<in> set (butlast ps). truthy (nextCursor p)" "length ps \<le> fuel'"
        using fuel by auto
      from Cons.IH[OF sv rest(1,2) ends rest(3) more]
      obtain r where r:
        "paginate_loop fuel' fetchPage (Some m) (nextCursor p) (n + length (data p)) s' = Some r"
        "yielded r = take (nat m - (n + length (data p))) (concat (map data ps))"
        "thrown r = None"
        "prefix (calls r) (nextCursor p # map nextCursor (butlast ps))"
        by auto
      with f fuel t yp False mn Cons show ?thesis by simp
    qed
  qed
qed

text \<open>
  The test of tests/pagination.test.ts: maxItems = 4 over two pages of three items yields
  the items 1 to 4 after two fetch calls; the third page is never asked for.
\<close>

lemma paginate_maxItems_four:
  "paginate 2 mock_fetchPage (Some 4)
     [\<lparr> data = [1, 2, 3 :: nat], nextCursor = Some ''page2'', hasMore = True \<rparr>,
      \<lparr> data = [4, 5, 6], nextCursor = Some ''page3'', hasMore = True \<rparr>] =
   Some \<lparr> yielded = [1, 2, 3, 4], calls = [None, Some ''page2''], thrown = None \<rparr>"
  by (simp add: paginate_def mock_fetchPage_def numeral_2_eq_2 truthy_def)

text \<open>
  C7 at maxItems = 0: the cap is tested only after an item has been yielded, so one item
  is yielded where min(0, 6) = 0 are allowed.
\<close>

theorem paginate_maxItems_zero_yields_one:
  "paginate 2 mock_fetchPage (Some 0)
     [\<lparr> data = [1, 2, 3 :: nat], nextCursor = Some ''page2'', hasMore = True \<rparr>,
      \<lparr> data = [4, 5, 6], nextCursor = None, hasMore = False \<rparr>] =
   Some \<lparr> yielded = [1], calls = [None], thrown = None \<rparr>"
  by (simp add: paginate_def mock_fetchPage_def numeral_2_eq_2)

end
